theory Spec2Isabelle
  imports Complex_Main
begin

section \<open>The dashboard's values\<close>

text \<open>
  The scripts of the web dashboard (the dashboard application and the task manager) work
  on the values the server sends as JSON and on the strings of a form. A JavaScript number
  is modelled by its exact value, the real number the language standard computes with;
  \<open>-0\<close> behaves like \<open>0\<close> in every place the scripts use a number (comparison with \<open>0\<close>,
  truthiness, \<open>toFixed\<close>). Strings are byte lists holding the UTF-8 encoding of the text;
  the characters the scripts search for and replace are either ASCII or whole encoded
  characters.
\<close>

datatype js_number = NaN | PosInfinity | NegInfinity | Finite real

text \<open>The values of JSON, and \<open>undefined\<close>. An object is the list of its own properties,
  each name once.\<close>

datatype js_value =
    JUndefined
  | JNull
  | JBool bool
  | JNum js_number
  | JStr string
  | JArr "js_value list"
  | JObj "(string \<times> js_value) list"

subsection \<open>Conversions of the language\<close>

text \<open>
  \<open>Number::toString\<close>. The decimal text of a finite number is the shortest one that reads
  back as the same double; it is the host's, and is a parameter \<open>nts\<close> of every function
  that needs it.
\<close>

fun Number_toString :: "(real \<Rightarrow> string) \<Rightarrow> js_number \<Rightarrow> string" where
  "Number_toString nts NaN = ''NaN''"
| "Number_toString nts PosInfinity = ''Infinity''"
| "Number_toString nts NegInfinity = ''-Infinity''"
| "Number_toString nts (Finite r) = nts r"

fun join :: "string \<Rightarrow> string list \<Rightarrow> string" where
  "join sep [] = []"
| "join sep [x] = x"
| "join sep (x # y # ys) = x @ sep @ join sep (y # ys)"

text \<open>Errors are values: what a \<open>throw\<close> or a rejected promise carries is an error object
  with its \<open>message\<close>.\<close>

datatype js_error = TypeError string | SyntaxError string | RangeError string | Error string

fun error_message :: "js_error \<Rightarrow> string" where
  "error_message (TypeError m) = m"
| "error_message (SyntaxError m) = m"
| "error_message (RangeError m) = m"
| "error_message (Error m) = m"

text \<open>Sequencing of steps that may throw.\<close>

definition and_then :: "'e + 'a \<Rightarrow> ('a \<Rightarrow> 'e + 'b) \<Rightarrow> 'e + 'b" where
  "and_then r f = (case r of Inl e \<Rightarrow> Inl e | Inr x \<Rightarrow> f x)"

text \<open>Whether an object, given by its properties, has an own property of that name.\<close>

definition has_key :: "(string \<times> 'v) list \<Rightarrow> string \<Rightarrow> bool" where
  "has_key cfg k = (map_of cfg k \<noteq> None)"

text \<open>
  \<open>ToString\<close>, as \<open>String(v)\<close>, a template literal \<open>`${v}`\<close> and the setter of
  \<open>textContent\<close> apply it. An array is its elements joined by commas, \<open>null\<close> and
  \<open>undefined\<close> elements giving the empty string. A plain object is \<open>[object Object]\<close>
  through the \<open>toString\<close> it inherits; an object of the server's JSON that has an own
  property \<open>toString\<close> hides the inherited method by a value that cannot be called, and
  the conversion throws a \<open>TypeError\<close>.
\<close>

fun ToString :: "(real \<Rightarrow> string) \<Rightarrow> js_value \<Rightarrow> js_error + string"
  and ToString_elements :: "(real \<Rightarrow> string) \<Rightarrow> js_value list \<Rightarrow> js_error + string list" where
  "ToString nts JUndefined = Inr ''undefined''"
| "ToString nts JNull = Inr ''null''"
| "ToString nts (JBool b) = Inr (if b then ''true'' else ''false'')"
| "ToString nts (JNum n) = Inr (Number_toString nts n)"
| "ToString nts (JStr s) = Inr s"
| "ToString nts (JArr xs) =
     (case ToString_elements nts xs of Inl e \<Rightarrow> Inl e | Inr ss \<Rightarrow> Inr (join '','' ss))"
| "ToString nts (JObj kvs) =
     (if has_key kvs ''toString'' then Inl (TypeError ''Cannot convert object to primitive value'')
      else Inr ''[object Object]'')"
| "ToString_elements nts [] = Inr []"
| "ToString_elements nts (x # xs) =
     (case (if x = JUndefined \<or> x = JNull then Inr [] else ToString nts x) of
        Inl e \<Rightarrow> Inl e
      | Inr s \<Rightarrow> (case ToString_elements nts xs of Inl e \<Rightarrow> Inl e | Inr ss \<Rightarrow> Inr (s # ss)))"

text \<open>\<open>ToBoolean\<close>: the values a condition treats as false are \<open>undefined\<close>, \<open>null\<close>,
  \<open>false\<close>, \<open>0\<close>, \<open>NaN\<close> and the empty string.\<close>

fun truthy :: "js_value \<Rightarrow> bool" where
  "truthy JUndefined = False"
| "truthy JNull = False"
| "truthy (JBool b) = b"
| "truthy (JNum NaN) = False"
| "truthy (JNum (Finite r)) = (r \<noteq> 0)"
| "truthy (JNum _) = True"
| "truthy (JStr s) = (s \<noteq> [])"
| "truthy (JArr _) = True"
| "truthy (JObj _) = True"

text \<open>
  Reading a named property \<open>v.k\<close>: a \<open>TypeError\<close> on \<open>null\<close> and \<open>undefined\<close>, the
  property's value on an object that has it, \<open>undefined\<close> otherwise. This is for the
  names the scripts read (fields of a task, an alert and a rule configuration): no
  primitive, array or plain object inherits a property of such a name.
\<close>

fun get_prop :: "js_value \<Rightarrow> string \<Rightarrow> js_error + js_value" where
  "get_prop JUndefined k = Inl (TypeError ''Cannot read properties of undefined'')"
| "get_prop JNull k = Inl (TypeError ''Cannot read properties of null'')"
| "get_prop (JObj kvs) k = Inr (case map_of kvs k of None \<Rightarrow> JUndefined | Some v \<Rightarrow> v)"
| "get_prop _ k = Inr JUndefined"

text \<open>
  \<open>String.prototype.toUpperCase\<close>. It maps the text character by character, without
  regard to the neighbours. An ASCII letter goes to its capital and every other ASCII
  character stays. The mapping of the characters beyond ASCII is the Unicode table's (it
  can change the length: the sharp s becomes \<open>SS\<close>); it is the parameter \<open>uni\<close>, applied
  to each longest run of bytes that encode such characters.
\<close>

definition lower_letters :: string where
  "lower_letters = ''abcdefghijklmnopqrstuvwxyz''"

definition upper_letters :: string where
  "upper_letters = ''ABCDEFGHIJKLMNOPQRSTUVWXYZ''"


definition upper_char :: "char \<Rightarrow> char" where
  "upper_char c = (case map_of (zip lower_letters upper_letters) c of Some u \<Rightarrow> u | None \<Rightarrow> c)"

definition is_ascii :: "char \<Rightarrow> bool" where
  \<comment> \<open>a byte below 128: the top bit is clear\<close>
  "is_ascii c = (\<not> digit7 c)"

function toUpperCase :: "(string \<Rightarrow> string) \<Rightarrow> string \<Rightarrow> string" where
  "toUpperCase uni [] = []"
| "toUpperCase uni (c # cs) =
     (if is_ascii c then upper_char c # toUpperCase uni cs
      else uni (c # takeWhile (\<lambda>x. \<not> is_ascii x) cs)
           @ toUpperCase uni (dropWhile (\<lambda>x. \<not> is_ascii x) cs))"
  by pat_completeness auto
termination
  by (relation "measure (\<lambda>(uni, s). length s)") (auto simp: length_dropWhile_le less_Suc_eq_le)

section \<open>The task manager\<close>

subsection \<open>The creation form\<close>

text \<open>
  \<open>FormData.get(name)\<close> returns the first entry of that name, a string or a \<open>File\<close>, or
  \<open>null\<close> when the form has no such field.
\<close>

datatype form_entry = FText string | FFile

type_synonym form_data = "(string \<times> form_entry) list"

definition FormData_get :: "form_data \<Rightarrow> string \<Rightarrow> form_entry option" where
  "FormData_get fd name = map_of fd name"

text \<open>\<open>ToString\<close> of what \<open>FormData.get\<close> returned, as \<open>parseInt\<close> and \<open>parseFloat\<close>
  apply it to their argument.\<close>

fun entry_ToString :: "form_entry option \<Rightarrow> string" where
  "entry_ToString None = ''null''"
| "entry_ToString (Some (FText s)) = s"
| "entry_ToString (Some FFile) = ''[object File]''"

text \<open>The submit event: the form's data and the text of its submit button, if it has one
  (\<open>form.querySelector('button[type="submit"]')\<close>).\<close>

record submit_event =
  formData :: form_data
  submitBtn :: "string option"

text \<open>The object \<open>taskData\<close> handed to \<open>api.post('/tasks', taskData)\<close>; \<open>rule_config\<close> is
  the object \<open>ruleConfig\<close>, its properties in the order they were assigned.\<close>

record task_data =
  user_id :: js_number
  symbol :: string
  rule_type :: "form_entry option"
  rule_config :: "(string \<times> js_number) list"

text \<open>
  \<open>TaskManager.createTask(event)\<close> up to the call of \<open>api.post\<close>: the result is the task
  data that is posted, or the exception that ends the handler before anything is posted.
  \<open>parseInt\<close> and \<open>parseFloat\<close> are the host's, parameters \<open>pInt\<close> and \<open>pFloat\<close>,
  and \<open>uni\<close> is the table of \<open>toUpperCase\<close>.
\<close>

definition createTask ::
  "(string \<Rightarrow> string) \<Rightarrow> (string \<Rightarrow> js_number) \<Rightarrow> (string \<Rightarrow> js_number) \<Rightarrow> submit_event
    \<Rightarrow> js_error + task_data" where
  "createTask uni pInt pFloat event =
    (let fd = formData event;
         userId = pInt (entry_ToString (FormData_get fd ''user_id''))
     in case FormData_get fd ''symbol'' of
          None \<Rightarrow> Inl (TypeError ''Cannot read properties of null (reading 'toUpperCase')'')
        | Some FFile \<Rightarrow> Inl (TypeError ''formData.get(...).toUpperCase is not a function'')
        | Some (FText s) \<Rightarrow>
           (let symbol = toUpperCase uni s;
                ruleType = FormData_get fd ''rule_type'';
                ruleConfig =
                  (if ruleType = Some (FText ''PRICE_THRESHOLD'') then
                     (let condition = FormData_get fd ''price_condition'';
                          price = pFloat (entry_ToString (FormData_get fd ''threshold_price''))
                      in if condition = Some (FText ''above'')
                         then [(''threshold_high'', price)]
                         else [(''threshold_low'', price)])
                   else if ruleType = Some (FText ''PERCENTAGE'') then
                     [(''percentage_threshold'',
                         pFloat (entry_ToString (FormData_get fd ''percentage_threshold''))),
                      (''reference_price'',
                         pFloat (entry_ToString (FormData_get fd ''reference_price'')))]
                   else []);
                taskData = \<lparr>user_id = userId, symbol = symbol, rule_type = ruleType,
                            rule_config = ruleConfig\<rparr>
            in case submitBtn event of
                 None \<Rightarrow> Inl (TypeError ''Cannot read properties of null (reading 'textContent')'')
               | Some _ \<Rightarrow> Inr taskData))"

text \<open>A filled-in form used to run the handler: a BTC price alert above 50000.\<close>

definition btc_above_form :: submit_event where
  "btc_above_form =
     \<lparr>formData = [(''user_id'', FText ''42''), (''symbol'', FText ''btc''),
                  (''rule_type'', FText ''PRICE_THRESHOLD''), (''price_condition'', FText ''above''),
                  (''threshold_price'', FText ''50000'')],
      submitBtn = Some ''Create''\<rparr>"


section \<open>The dashboard application\<close>

subsection \<open>DOMUtils.escapeHtml\<close>

text \<open>\<open>s.replace(/c/g, rep)\<close> for a one-character pattern: every occurrence of \<open>c\<close>
  is replaced, left to right, and the inserted text is not scanned again.\<close>

definition replace_global :: "char \<Rightarrow> string \<Rightarrow> string \<Rightarrow> string" where
  "replace_global c rep s = concat (map (\<lambda>x. if x = c then rep else [x]) s)"

definition double_quote :: char where
  "double_quote = CHR 0x22"

definition single_quote :: char where
  "single_quote = CHR 0x27"

text \<open>The chain of five replacements applied to a string, in the order of the source.\<close>

definition escape_chain :: "string \<Rightarrow> string" where
  "escape_chain unsafe =
     replace_global single_quote ''&#039;''
       (replace_global double_quote ''&quot;''
         (replace_global CHR ''>'' ''&gt;''
           (replace_global CHR ''<'' ''&lt;''
             (replace_global CHR ''&'' ''&amp;'' unsafe))))"

text \<open>\<open>DOMUtils.escapeHtml(unsafe)\<close>: anything that is not a string is returned as
  \<open>String(unsafe)\<close>, without escaping; where that conversion throws, so does the
  function.\<close>

fun escapeHtml :: "(real \<Rightarrow> string) \<Rightarrow> js_value \<Rightarrow> js_error + string" where
  "escapeHtml nts (JStr unsafe) = Inr (escape_chain unsafe)"
| "escapeHtml nts v = ToString nts v"

text \<open>The entity of one character, and the five entities the function emits.\<close>

definition entity_of :: "char \<Rightarrow> string" where
  "entity_of c =
     (if c = CHR ''&'' then ''&amp;''
      else if c = CHR ''<'' then ''&lt;''
      else if c = CHR ''>'' then ''&gt;''
      else if c = double_quote then ''&quot;''
      else if c = single_quote then ''&#039;''
      else [c])"

definition entities :: "string list" where
  "entities = [''&amp;'', ''&lt;'', ''&gt;'', ''&quot;'', ''&#039;'']"

text \<open>Whether \<open>p\<close> is what the string \<open>s\<close> starts with.\<close>

fun starts_with :: "string \<Rightarrow> string \<Rightarrow> bool" where
  "starts_with s [] = True"
| "starts_with [] (p # ps) = False"
| "starts_with (c # cs) (p # ps) = (c = p \<and> starts_with cs ps)"

text \<open>Every \<open>&\<close> of the string is the first character of one of the five entities.\<close>

fun amp_heads_entity :: "string \<Rightarrow> bool" where
  "amp_heads_entity [] = True"
| "amp_heads_entity (c # cs) =
     ((if c = CHR ''&'' then list_ex (starts_with (c # cs)) entities else True)
      \<and> amp_heads_entity cs)"

subsection \<open>Number.prototype.toFixed and utils.formatPercentage\<close>

definition digit_char :: "nat \<Rightarrow> char" where
  "digit_char d = ''0123456789'' ! d"

text \<open>The digits of the decimal representation of \<open>n\<close>, in order, with no leading
  zeroes; \<open>0\<close> for \<open>n = 0\<close>.\<close>

function decimal :: "nat \<Rightarrow> string" where
  "decimal n = (if n < 10 then [digit_char n] else decimal (n div 10) @ [digit_char (n mod 10)])"
  by pat_completeness auto
termination
  by (relation "measure (\<lambda>n. n)") auto

declare decimal.simps [simp del]

text \<open>
  Steps 11.c.i to 11.c.v of \<open>toFixed\<close> in the language standard, for \<open>f \<noteq> 0\<close>: the digit
  string \<open>m\<close> is padded with zeroes on the left up to \<open>f + 1\<close> digits, and a point is put
  before its last \<open>f\<close> digits.
\<close>

definition insert_point :: "nat \<Rightarrow> string \<Rightarrow> string" where
  "insert_point f m =
     (let k = length m;
          m' = (if k \<le> f then replicate (f + 1 - k) CHR ''0'' @ m else m);
          k' = (if k \<le> f then f + 1 else k);
          a = take (k' - f) m';
          b = drop (k' - f) m'
      in a @ ''.'' @ b)"

text \<open>
  \<open>Number.prototype.toFixed(fractionDigits)\<close>, following the standard: a \<open>RangeError\<close>
  for more than 100 digits; a value that is not finite as \<open>Number::toString\<close> gives it;
  otherwise the sign, and for a magnitude \<open>x\<close> from \<open>10^21\<close> on \<open>Number::toString\<close>
  again, and below it the integer \<open>n\<close> for which \<open>n / 10^f - x\<close> is as close to zero as
  possible (the larger one of two), printed with the point before its last \<open>f\<close> digits.
\<close>

definition toFixed :: "(real \<Rightarrow> string) \<Rightarrow> nat \<Rightarrow> js_number \<Rightarrow> js_error + string" where
  "toFixed nts f v =
     (if f > 100 then Inl (RangeError ''toFixed() digits argument must be between 0 and 100'')
      else case v of
          Finite r \<Rightarrow>
            (let s = (if r < 0 then ''-'' else []);
                 x = (if r < 0 then - r else r)
             in if x \<ge> 10 ^ 21 then Inr (s @ nts x)
                else (let n = nat \<lfloor>x * 10 ^ f + 1 / 2\<rfloor>;
                          m = decimal n
                      in Inr (s @ (if f \<noteq> 0 then insert_point f m else m))))
        | _ \<Rightarrow> Inr (Number_toString nts v))"

text \<open>The comparison \<open>value >= 0\<close> on a number: false for \<open>NaN\<close>.\<close>

fun ge_zero :: "js_number \<Rightarrow> bool" where
  "ge_zero NaN = False"
| "ge_zero PosInfinity = True"
| "ge_zero NegInfinity = False"
| "ge_zero (Finite r) = (r \<ge> 0)"

text \<open>
  \<open>utils.formatPercentage(value)\<close> (the same in both versions of the dashboard script). On a number
  it is the sign, \<open>value.toFixed(2)\<close> and a percent sign. Other values have no \<open>toFixed\<close>
  method, and the call throws.
\<close>

fun formatPercentage :: "(real \<Rightarrow> string) \<Rightarrow> js_value \<Rightarrow> js_error + string" where
  "formatPercentage nts (JNum value) =
     (let sign = (if ge_zero value then ''+'' else [])
      in case toFixed nts 2 value of
           Inl e \<Rightarrow> Inl e
         | Inr t \<Rightarrow> Inr (sign @ t @ ''%''))"
| "formatPercentage nts JUndefined = Inl (TypeError ''Cannot read properties of undefined (reading 'toFixed')'')"
| "formatPercentage nts JNull = Inl (TypeError ''Cannot read properties of null (reading 'toFixed')'')"
| "formatPercentage nts _ = Inl (TypeError ''value.toFixed is not a function'')"

text \<open>How a count \<open>n\<close> of hundredths reads when printed with two decimals: the digits of
  \<open>n div 100\<close>, a point, and the last two digits of \<open>n\<close>.\<close>

definition two_decimals :: "nat \<Rightarrow> string" where
  "two_decimals n = decimal (n div 100) @ ''.'' @ [digit_char (n div 10 mod 10), digit_char (n mod 10)]"

subsection \<open>Text constants\<close>

text \<open>The non-ASCII literals of the scripts, as their UTF-8 bytes.\<close>

definition ge_sign :: string where \<comment> \<open>U+2265, greater-than or equal to\<close>
  "ge_sign = [CHR 0xE2, CHR 0x89, CHR 0xA5]"

definition le_sign :: string where \<comment> \<open>U+2264, less-than or equal to\<close>
  "le_sign = [CHR 0xE2, CHR 0x89, CHR 0xA4]"

definition break_above :: string where \<comment> \<open>U+7A81 U+7834, "break above"\<close>
  "break_above = [CHR 0xE7, CHR 0xAA, CHR 0x81, CHR 0xE7, CHR 0xA0, CHR 0xB4]"

definition drop_below :: string where \<comment> \<open>U+8DCC U+7834, "drop below"\<close>
  "drop_below = [CHR 0xE8, CHR 0xB7, CHR 0x8C, CHR 0xE7, CHR 0xA0, CHR 0xB4]"

definition rise :: string where \<comment> \<open>U+6DA8, "rise"\<close>
  "rise = [CHR 0xE6, CHR 0xB6, CHR 0xA8]"

definition fall :: string where \<comment> \<open>U+8DCC, "fall"\<close>
  "fall = [CHR 0xE8, CHR 0xB7, CHR 0x8C]"

definition price_word :: string where \<comment> \<open>U+4EF7 U+683C, "price"\<close>
  "price_word = [CHR 0xE4, CHR 0xBB, CHR 0xB7, CHR 0xE6, CHR 0xA0, CHR 0xBC]"

definition alert_word :: string where \<comment> \<open>U+9884 U+8B66, "alert"\<close>
  "alert_word = [CHR 0xE9, CHR 0xA2, CHR 0x84, CHR 0xE8, CHR 0xAD, CHR 0xA6]"

definition alert_fired :: string where \<comment> \<open>U+9884 U+8B66 U+89E6 U+53D1, "alert fired"\<close>
  "alert_fired = alert_word @ [CHR 0xE8, CHR 0xA7, CHR 0xA6, CHR 0xE5, CHR 0x8F, CHR 0x91]"

definition target_price :: string where \<comment> \<open>U+76EE U+6807 U+4EF7 U+683C, "target price"\<close>
  "target_price = [CHR 0xE7, CHR 0x9B, CHR 0xAE, CHR 0xE6, CHR 0xA0, CHR 0x87] @ price_word"

definition change_range :: string where \<comment> \<open>U+6DA8 U+8DCC U+5E45, "change range"\<close>
  "change_range = rise @ fall @ [CHR 0xE5, CHR 0xB9, CHR 0x85]"

definition config_error :: string where \<comment> \<open>U+914D U+7F6E U+9519 U+8BEF, "configuration error"\<close>
  "config_error = [CHR 0xE9, CHR 0x85, CHR 0x8D, CHR 0xE7, CHR 0xBD, CHR 0xAE,
                   CHR 0xE9, CHR 0x94, CHR 0x99, CHR 0xE8, CHR 0xAF, CHR 0xAF]"

definition monitor_alert :: string where \<comment> \<open>U+76D1 U+63A7 U+9884 U+8B66, "monitoring alert"\<close>
  "monitor_alert = [CHR 0xE7, CHR 0x9B, CHR 0x91, CHR 0xE6, CHR 0x8E, CHR 0xA7] @ alert_word"

definition system_alert :: string where \<comment> \<open>U+7CFB U+7EDF U+9884 U+8B66, "system alert"\<close>
  "system_alert = [CHR 0xE7, CHR 0xB3, CHR 0xBB, CHR 0xE7, CHR 0xBB, CHR 0x9F] @ alert_word"

definition sent_label :: string where \<comment> \<open>U+5DF2 U+53D1 U+9001, "sent"\<close>
  "sent_label = [CHR 0xE5, CHR 0xB7, CHR 0xB2, CHR 0xE5, CHR 0x8F, CHR 0x91, CHR 0xE9, CHR 0x80, CHR 0x81]"

definition request_failed :: string where \<comment> \<open>U+8BF7 U+6C42 U+5931 U+8D25, "request failed"\<close>
  "request_failed = [CHR 0xE8, CHR 0xAF, CHR 0xB7, CHR 0xE6, CHR 0xB1, CHR 0x82,
                     CHR 0xE5, CHR 0xA4, CHR 0xB1, CHR 0xE8, CHR 0xB4, CHR 0xA5]"

subsection \<open>parseAlertMessage\<close>

text \<open>\<open>String.prototype.includes\<close>: whether \<open>p\<close> occurs in \<open>s\<close> as a contiguous part.\<close>

fun str_includes :: "string \<Rightarrow> string \<Rightarrow> bool" where
  "str_includes [] p = (p = [])"
| "str_includes (c # cs) p = (starts_with (c # cs) p \<or> str_includes cs p)"

definition is_digit :: "char \<Rightarrow> bool" where
  "is_digit c = (c \<in> set ''0123456789'')"

text \<open>
  A regular expression is tried at each position of the string from the left, and the
  first position where it matches wins.
\<close>

fun first_match :: "(string \<Rightarrow> 'a option) \<Rightarrow> string \<Rightarrow> 'a option" where
  "first_match m [] = m []"
| "first_match m (c # cs) = (case m (c # cs) of Some x \<Rightarrow> Some x | None \<Rightarrow> first_match m cs)"

text \<open>
  \<open>/(\d+\.?\d*)/\<close> at the start of \<open>s\<close>, giving group 1: the longest run of digits, which
  must not be empty, then a point if one follows, then the longest run of digits. Each
  part is greedy and nothing follows the group, so no backtracking takes place.
\<close>

definition match_number_at :: "string \<Rightarrow> string option" where
  "match_number_at s =
     (let d1 = takeWhile is_digit s; r1 = dropWhile is_digit s
      in if d1 = [] then None
         else Some (d1 @ (case r1 of
                            [] \<Rightarrow> []
                          | c # r2 \<Rightarrow> if c = CHR ''.'' then c # takeWhile is_digit r2 else [])))"

text \<open>
  \<open>/([+-]?\d+\.?\d*)%/\<close> at the start of \<open>s\<close>, giving group 1. The percent sign must follow
  the group directly. A digit is not a percent sign, so both runs of digits are the longest
  ones; giving back the sign or the point never leads to a match that taking them does not.
\<close>

definition match_percent_at :: "string \<Rightarrow> string option" where
  "match_percent_at s =
     (let sg = (case s of [] \<Rightarrow> [] | c # cs \<Rightarrow> if c = CHR ''+'' \<or> c = CHR ''-'' then [c] else []);
          r = drop (length sg) s;
          d1 = takeWhile is_digit r; r1 = dropWhile is_digit r
      in if d1 = [] then None
         else case r1 of
                [] \<Rightarrow> None
              | c # r2 \<Rightarrow>
                  if c = CHR ''%'' then Some (sg @ d1)
                  else if c = CHR ''.'' then
                    (let d2 = takeWhile is_digit r2; r3 = dropWhile is_digit r2
                     in case r3 of
                          [] \<Rightarrow> None
                        | c3 # _ \<Rightarrow> if c3 = CHR ''%'' then Some (sg @ d1 @ ''.'' @ d2) else None)
                  else None)"

text \<open>\<open>parseAlertMessage(message)\<close> on a string.\<close>

definition parseAlertMessage :: "string \<Rightarrow> string" where
  "parseAlertMessage message =
     (if str_includes message break_above \<or> str_includes message drop_below then
        (case first_match match_number_at message of
           Some m1 \<Rightarrow> price_word @ '' '' @ (if str_includes message break_above then ge_sign else le_sign)
                       @ '' $'' @ m1
         | None \<Rightarrow> price_word @ alert_word)
      else if str_includes message rise \<or> str_includes message fall then
        (case first_match match_percent_at message of
           Some m1 \<Rightarrow> rise @ fall @ '' '' @ m1 @ ''%''
         | None \<Rightarrow> rise @ fall @ alert_word)
      else alert_fired)"

text \<open>
  \<open>parseAlertMessage\<close> on any value of the server's JSON. \<open>null\<close> and \<open>undefined\<close> have no
  properties; numbers, booleans and plain objects have no \<open>includes\<close> method; an array has
  \<open>includes\<close> (membership) but no \<open>match\<close>.
\<close>

fun parseAlertMessage_value :: "js_value \<Rightarrow> js_error + string" where
  "parseAlertMessage_value (JStr message) = Inr (parseAlertMessage message)"
| "parseAlertMessage_value JUndefined = Inl (TypeError ''Cannot read properties of undefined (reading 'includes')'')"
| "parseAlertMessage_value JNull = Inl (TypeError ''Cannot read properties of null (reading 'includes')'')"
| "parseAlertMessage_value (JArr xs) =
     (if JStr break_above \<in> set xs \<or> JStr drop_below \<in> set xs \<or> JStr rise \<in> set xs \<or> JStr fall \<in> set xs
      then Inl (TypeError ''message.match is not a function'')
      else Inr alert_fired)"
| "parseAlertMessage_value _ = Inl (TypeError ''message.includes is not a function'')"

subsection \<open>The alert table\<close>

text \<open>The object that \<open>loadAlerts\<close> builds from one alert of the server and hands to
  \<open>createAlertRow\<close>.\<close>

record alert_view =
  view_time :: js_number
  view_symbol :: js_value
  view_type :: string
  view_condition :: string
  view_price :: js_value
  view_status :: string

text \<open>
  The argument of \<open>createAlertRow\<close> in the loop of \<open>loadAlerts\<close>. \<open>getTime\<close> stands for
  \<open>new Date(v).getTime()\<close>, the host's.
\<close>

definition alert_to_view :: "(js_value \<Rightarrow> js_number) \<Rightarrow> js_value \<Rightarrow> js_error + alert_view" where
  "alert_to_view getTime alert =
     and_then (get_prop alert ''triggered_at'') (\<lambda>triggered_at.
     and_then (get_prop alert ''symbol'') (\<lambda>sym.
     and_then (get_prop alert ''task_id'') (\<lambda>task_id.
     and_then (get_prop alert ''message'') (\<lambda>msg.
     and_then (parseAlertMessage_value msg) (\<lambda>condition.
     and_then (get_prop alert ''trigger_price'') (\<lambda>trigger_price.
     and_then (get_prop alert ''sent_success'') (\<lambda>sent_success.
       Inr \<lparr>view_time = getTime triggered_at,
            view_symbol = sym,
            view_type = (if truthy task_id then monitor_alert else system_alert),
            view_condition = condition,
            view_price = trigger_price,
            view_status = (if truthy sent_success then ''success'' else ''error'')\<rparr>)))))))"

text \<open>A DOM element: tag, attributes set with \<open>setAttribute\<close>, class name, text and
  children.\<close>

datatype dom = Element (tag: string) (attrs: "(string \<times> string) list") (className: string)
  (textContent: string) (children: "dom list")

text \<open>\<open>DOMUtils.createElement(tag, attributes, textContent)\<close>; a text that is falsy is not
  set, and setting one converts it to a string, which may throw.\<close>

fun set_attributes :: "(string \<times> string) list \<Rightarrow> dom \<Rightarrow> dom" where
  "set_attributes [] el = el"
| "set_attributes ((key, v) # rest) (Element t as cn tx ch) =
     set_attributes rest
       (if key = ''className'' then Element t as v tx ch
        else Element t (filter (\<lambda>kv. fst kv \<noteq> key) as @ [(key, v)]) cn tx ch)"

definition createElement ::
  "(real \<Rightarrow> string) \<Rightarrow> string \<Rightarrow> (string \<times> string) list \<Rightarrow> js_value \<Rightarrow> js_error + dom" where
  "createElement nts tg attributes text =
     (case set_attributes attributes (Element tg [] [] [] []) of
        Element t as cn tx ch \<Rightarrow>
          if truthy text then and_then (ToString nts text) (\<lambda>s. Inr (Element t as cn s ch))
          else Inr (Element t as cn tx ch))"

fun appendChild :: "dom \<Rightarrow> dom \<Rightarrow> dom" where
  "appendChild (Element t as cn tx ch) child = Element t as cn tx (ch @ [child])"

text \<open>
  \<open>createAlertRow(alert)\<close>. \<open>utils.formatTime\<close> reads the clock and the locale and
  \<open>utils.formatPrice\<close> the locale; they are the parameters \<open>formatTime\<close> and \<open>formatPrice\<close>,
  the second of which throws on a price that is no number.
\<close>

definition createAlertRow ::
  "(real \<Rightarrow> string) \<Rightarrow> (js_number \<Rightarrow> string) \<Rightarrow> (js_value \<Rightarrow> js_error + string)
    \<Rightarrow> alert_view \<Rightarrow> js_error + dom" where
  "createAlertRow nts formatTime formatPrice alert =
     (let row = Element ''tr'' [] [] [] []
      in and_then (createElement nts ''td'' [] (JStr (formatTime (view_time alert)))) (\<lambda>timeCell.
         and_then (createElement nts ''strong'' [] (view_symbol alert)) (\<lambda>symbolStrong.
         and_then (createElement nts ''td'' [] (JStr (view_type alert))) (\<lambda>typeCell.
         and_then (createElement nts ''td'' [] (JStr (view_condition alert))) (\<lambda>conditionCell.
         and_then (formatPrice (view_price alert)) (\<lambda>price.
         and_then (createElement nts ''td'' [] (JStr price)) (\<lambda>priceCell.
         and_then (createElement nts ''span''
                     [(''className'', ''status-badge '' @ view_status alert)] (JStr sent_label))
           (\<lambda>statusBadge.
             (let symbolCell = appendChild (Element ''td'' [] [] [] []) symbolStrong;
                  statusCell = appendChild (Element ''td'' [] [] [] []) statusBadge
              in Inr (foldl appendChild row
                        [timeCell, symbolCell, typeCell, conditionCell, priceCell, statusCell]))))))))))"

text \<open>One pass of the loop of \<open>loadAlerts\<close>: the row appended to the table for an alert.\<close>

definition render_alert ::
  "(real \<Rightarrow> string) \<Rightarrow> (js_value \<Rightarrow> js_number) \<Rightarrow> (js_number \<Rightarrow> string)
    \<Rightarrow> (js_value \<Rightarrow> js_error + string) \<Rightarrow> js_value \<Rightarrow> js_error + dom" where
  "render_alert nts getTime formatTime formatPrice alert =
     and_then (alert_to_view getTime alert) (createAlertRow nts formatTime formatPrice)"

subsection \<open>The task card\<close>

text \<open>
  The rule detail that \<open>TaskManager.createTaskCard(task)\<close> computes (the \<open>try\<close> block that
  parses the rule configuration, and its \<open>catch\<close>). \<open>task.status\<close> is read before the
  block, so a task that is \<open>null\<close> or \<open>undefined\<close> ends the function with the exception.
  \<open>JSON.parse\<close> is the host's, the parameter \<open>parse\<close>.
\<close>

definition resolve_config :: "(string \<Rightarrow> js_error + js_value) \<Rightarrow> js_value \<Rightarrow> js_error + js_value" where
  \<comment> \<open>\<open>typeof task.rule_config === 'string' ? JSON.parse(task.rule_config) : task.rule_config\<close>\<close>
  "resolve_config parse rc = (case rc of JStr s \<Rightarrow> parse s | _ \<Rightarrow> Inr rc)"

definition rule_detail_try ::
  "(string \<Rightarrow> js_error + js_value) \<Rightarrow> (real \<Rightarrow> string) \<Rightarrow> js_value \<Rightarrow> js_error + string" where
  "rule_detail_try parse nts task =
     and_then (get_prop task ''rule_config'') (\<lambda>rule_config.
     and_then (resolve_config parse rule_config) (\<lambda>config.
     and_then (get_prop task ''rule_type'') (\<lambda>rule_type.
       if rule_type = JStr ''PRICE_THRESHOLD'' then
         and_then (get_prop config ''threshold_high'') (\<lambda>threshold_high.
           if truthy threshold_high
           then and_then (ToString nts threshold_high) (\<lambda>high.
                  Inr (target_price @ '': '' @ ge_sign @ '' $'' @ high))
           else and_then (get_prop config ''threshold_low'') (\<lambda>threshold_low.
                  if truthy threshold_low
                  then and_then (ToString nts threshold_low) (\<lambda>low.
                         Inr (target_price @ '': '' @ le_sign @ '' $'' @ low))
                  else Inr []))
       else if rule_type = JStr ''PERCENTAGE'' then
         and_then (get_prop config ''percentage_threshold'') (\<lambda>percentage_threshold.
           and_then (ToString nts percentage_threshold) (\<lambda>percentage.
             Inr (change_range @ '': '' @ percentage @ ''%'')))
       else Inr [])))"

definition createTaskCard_ruleDetail ::
  "(string \<Rightarrow> js_error + js_value) \<Rightarrow> (real \<Rightarrow> string) \<Rightarrow> js_value \<Rightarrow> js_error + string" where
  "createTaskCard_ruleDetail parse nts task =
     and_then (get_prop task ''status'') (\<lambda>status.
       case rule_detail_try parse nts task of
         Inr ruleDetail \<Rightarrow> Inr ruleDetail
       | Inl e \<Rightarrow> Inr config_error)"

text \<open>A task as the server lists it, with its rule type and rule configuration.\<close>

definition task_with :: "string \<Rightarrow> js_value \<Rightarrow> js_value" where
  "task_with rt rc =
     JObj [(''task_id'', JNum (Finite 1)), (''user_id'', JNum (Finite 42)), (''symbol'', JStr ''BTC''),
           (''rule_type'', JStr rt), (''rule_config'', rc), (''status'', JStr ''ACTIVE'')]"

subsection \<open>The API wrappers\<close>

text \<open>What \<open>fetch\<close> is called with, and the response it resolves to. \<open>json\<close> is the outcome
  of \<open>response.json()\<close>: the parsed body, or the error it rejects with.\<close>

record request =
  url :: string
  http_method :: string
  headers :: "(string \<times> string) list"
  credentials :: string
  body :: "string option"

record response =
  ok :: bool
  status :: nat
  statusText :: string
  json :: "js_error + js_value"

text \<open>The part of the page the wrappers write: the address, and the lines of the console.\<close>

record page =
  location_href :: string
  console :: "string list"

definition API_BASE :: string where
  "API_BASE = ''/api''"

text \<open>
  The \<open>try\<close> block once \<open>fetch\<close> has settled: a rejected \<open>fetch\<close> throws its error; a
  response that is not OK redirects and returns \<open>null\<close> for status 401 and throws an
  \<open>Error\<close> otherwise; an OK response gives what \<open>response.json()\<close> gives.
\<close>

definition after_fetch :: "js_error + response \<Rightarrow> page \<Rightarrow> (js_error + js_value) \<times> page" where
  "after_fetch fetched pg =
     (case fetched of
        Inl e \<Rightarrow> (Inl e, pg)
      | Inr response \<Rightarrow>
          if \<not> ok response then
            (if status response = 401
             then (Inr JNull, pg\<lparr>location_href := ''/login.html''\<rparr>)
             else (Inl (Error (''HTTP '' @ decimal (status response) @ '': '' @ statusText response)), pg))
          else (json response, pg))"

text \<open>The \<open>catch\<close> block: the error is logged (\<open>console.error\<close>, then \<open>showError\<close>, which
  logs the message), and \<open>null\<close> is returned.\<close>

definition catch_error :: "(js_error + js_value) \<times> page \<Rightarrow> (js_error + js_value) \<times> page" where
  "catch_error r =
     (case r of
        (Inl error, pg) \<Rightarrow>
          (Inr JNull,
           pg\<lparr>console := console pg @ [''API Error: '' @ error_message error,
                                         ''API'' @ request_failed @ '': '' @ error_message error]\<rparr>)
      | (Inr v, pg) \<Rightarrow> (Inr v, pg))"

text \<open>
  \<open>api.get\<close>, \<open>api.post\<close> and \<open>api.delete\<close>. \<open>fetch\<close> is the network, \<open>csrf\<close> what
  \<open>getCsrfToken()\<close> reads from the cookie, \<open>stringify\<close> is \<open>JSON.stringify\<close>, which throws
  on data it cannot serialise. The result is the value returned, or the exception that
  leaves the wrapper, and the page after the call.
\<close>

definition get_request :: "string \<Rightarrow> request" where
  "get_request endpoint =
     \<lparr>url = API_BASE @ endpoint, http_method = ''GET'',
      headers = [(''Content-Type'', ''application/json'')],
      credentials = ''include'', body = None\<rparr>"

definition post_request :: "string \<Rightarrow> string \<Rightarrow> string \<Rightarrow> request" where
  "post_request csrf endpoint text =
     \<lparr>url = API_BASE @ endpoint, http_method = ''POST'',
      headers = [(''Content-Type'', ''application/json''), (''X-CSRF-Token'', csrf)],
      credentials = ''include'', body = Some text\<rparr>"

definition delete_request :: "string \<Rightarrow> string \<Rightarrow> request" where
  "delete_request csrf endpoint =
     \<lparr>url = API_BASE @ endpoint, http_method = ''DELETE'',
      headers = [(''Content-Type'', ''application/json''), (''X-CSRF-Token'', csrf)],
      credentials = ''include'', body = None\<rparr>"

definition api_get ::
  "(request \<Rightarrow> js_error + response) \<Rightarrow> string \<Rightarrow> page \<Rightarrow> (js_error + js_value) \<times> page" where
  "api_get fetch endpoint pg =
     catch_error (after_fetch (fetch (get_request endpoint)) pg)"

definition api_post ::
  "(request \<Rightarrow> js_error + response) \<Rightarrow> string \<Rightarrow> ('d \<Rightarrow> js_error + string)
    \<Rightarrow> string \<Rightarrow> 'd \<Rightarrow> page \<Rightarrow> (js_error + js_value) \<times> page" where
  "api_post fetch csrf stringify endpoint data pg =
     catch_error
       (case stringify data of
          Inl e \<Rightarrow> (Inl e, pg)
        | Inr text \<Rightarrow> after_fetch (fetch (post_request csrf endpoint text)) pg)"

definition api_delete ::
  "(request \<Rightarrow> js_error + response) \<Rightarrow> string \<Rightarrow> string \<Rightarrow> page \<Rightarrow> (js_error + js_value) \<times> page" where
  "api_delete fetch csrf endpoint pg =
     catch_error (after_fetch (fetch (delete_request csrf endpoint)) pg)"

text \<open>What the wrappers are to return for a settled \<open>fetch\<close>: the parsed body of an OK
  response, and \<open>null\<close> in every other case.\<close>

definition expected_value :: "js_error + response \<Rightarrow> js_value" where
  "expected_value fetched =
     (case fetched of
        Inl e \<Rightarrow> JNull
      | Inr response \<Rightarrow>
          if ok response then (case json response of Inr v \<Rightarrow> v | Inl e \<Rightarrow> JNull) else JNull)"

text \<open>Whether the settled \<open>fetch\<close> is a response that is not OK with status 401.\<close>

definition unauthorized :: "js_error + response \<Rightarrow> bool" where
  "unauthorized fetched =
     (case fetched of Inl e \<Rightarrow> False | Inr response \<Rightarrow> \<not> ok response \<and> status response = 401)"

subsection \<open>The in-memory state and new alerts\<close>

text \<open>
  \<open>const state = { prices: {}, tasks: [], alerts: [], systemStatus: {} }\<close>.
  Only \<open>alerts\<close> is written by the functions embedded here.
\<close>

record state =
  prices :: "(string \<times> js_value) list"
  tasks :: "js_value list"
  alerts :: "js_value list"
  systemStatus :: js_value

text \<open>\<open>Array.prototype.unshift\<close> puts the element in front, \<open>pop\<close> removes the last one.\<close>

definition unshift :: "'a \<Rightarrow> 'a list \<Rightarrow> 'a list" where
  "unshift x xs = x # xs"

definition pop :: "'a list \<Rightarrow> 'a list" where
  "pop xs = butlast xs"

definition fired_word :: string where \<comment> \<open>U+89E6 U+53D1, "fired"\<close>
  "fired_word = [CHR 0xE8, CHR 0xA7, CHR 0xA6, CHR 0xE5, CHR 0x8F, CHR 0x91]"

text \<open>The body of the notification, \<open>`${alert.symbol} ${alert.type} ...`\<close>; it is built
  whether or not notifications are permitted.\<close>

definition notification_text :: "(real \<Rightarrow> string) \<Rightarrow> js_value \<Rightarrow> js_error + string" where
  "notification_text nts alert =
     and_then (get_prop alert ''symbol'') (\<lambda>sym.
     and_then (ToString nts sym) (\<lambda>symbol_text.
     and_then (get_prop alert ''type'') (\<lambda>ty.
     and_then (ToString nts ty) (\<lambda>type_text.
       Inr (symbol_text @ '' '' @ type_text @ '' '' @ fired_word)))))"

text \<open>
  What a call of \<open>addNewAlert\<close> leaves behind when it returns: the state, the requests it
  has started and that are not answered yet, and the exception it ends with, if any.
\<close>

record after_call =
  state_after :: state
  started :: "string list"
  thrown :: "js_error option"

text \<open>
  \<open>addNewAlert(alert)\<close> of the dashboard script with the API wrappers. The call of
  \<open>loadAlerts()\<close> runs up to the \<open>await\<close> of \<open>api.get('/alerts?limit=10')\<close>: the request is
  started, and \<open>state\<close> is not written before the answer arrives.
\<close>

definition addNewAlert :: "(real \<Rightarrow> string) \<Rightarrow> js_value \<Rightarrow> state \<Rightarrow> after_call" where
  "addNewAlert nts alert st =
     (let st1 = st\<lparr>alerts := unshift alert (alerts st)\<rparr>;
          st2 = (if length (alerts st1) > 10 then st1\<lparr>alerts := pop (alerts st1)\<rparr> else st1)
      in \<lparr>state_after = st2,
          started = [API_BASE @ ''/alerts?limit=10''],
          thrown = (case notification_text nts alert of Inl e \<Rightarrow> Some e | Inr notice \<Rightarrow> None)\<rparr>)"

text \<open>
  The rest of \<open>loadAlerts\<close>, run when \<open>api.get\<close> has returned \<open>result\<close>. A falsy result ends
  it. Otherwise the table is emptied (a \<open>TypeError\<close> when the page has no such element),
  each alert is rendered, and \<open>state.alerts\<close> becomes the result. An exception on the way
  is caught and logged, and \<open>state.alerts\<close> stays as it was; a truthy result that is not
  an array has no \<open>forEach\<close>.
\<close>

definition loadAlerts_resume ::
  "(real \<Rightarrow> string) \<Rightarrow> (js_value \<Rightarrow> js_number) \<Rightarrow> (js_number \<Rightarrow> string)
    \<Rightarrow> (js_value \<Rightarrow> js_error + string) \<Rightarrow> bool \<Rightarrow> js_value \<Rightarrow> state \<Rightarrow> state" where
  "loadAlerts_resume nts getTime formatTime formatPrice has_table result st =
     (if \<not> truthy result then st
      else if \<not> has_table then st
      else case result of
             JArr xs \<Rightarrow>
               if list_all (\<lambda>a. \<not> isl (render_alert nts getTime formatTime formatPrice a)) xs
               then st\<lparr>alerts := xs\<rparr> else st
           | _ \<Rightarrow> st)"

text \<open>
  The older dashboard script under \<open>web/static/js\<close> has no server behind \<open>loadAlerts\<close>:
  the function has no \<open>await\<close>, so it runs to its end inside the call, renders three
  alerts written in the script and assigns them to \<open>state.alerts\<close>. \<open>clock\<close> gives the
  readings of \<open>Date.now()\<close>, one after the other.
\<close>

definition mock_alerts :: "(nat \<Rightarrow> real) \<Rightarrow> js_value list" where
  "mock_alerts clock =
     [JObj [(''time'', JNum (Finite (clock 0 - 300000))), (''symbol'', JStr ''BTC''),
            (''type'', JStr (price_word @ [CHR 0xE9, CHR 0x98, CHR 0x88, CHR 0xE5, CHR 0x80, CHR 0xBC])),
            (''condition'', JStr (ge_sign @ '' $90,000'')),
            (''price'', JNum (Finite 90125)), (''status'', JStr ''success'')],
      JObj [(''time'', JNum (Finite (clock 1 - 1800000))), (''symbol'', JStr ''ETH''),
            (''type'', JStr ([CHR 0xE7, CHR 0x99, CHR 0xBE, CHR 0xE5, CHR 0x88, CHR 0x86,
                              CHR 0xE6, CHR 0xAF, CHR 0x94] @ rise @ fall)),
            (''condition'', JStr (rise @ [CHR 0xE5, CHR 0xB9, CHR 0x85] @ '' '' @ ge_sign @ '' 5%'')),
            (''price'', JNum (Finite 3150.5)), (''status'', JStr ''success'')],
      JObj [(''time'', JNum (Finite (clock 2 - 3600000))), (''symbol'', JStr ''SOL''),
            (''type'', JStr (price_word @ [CHR 0xE9, CHR 0x98, CHR 0x88, CHR 0xE5, CHR 0x80, CHR 0xBC])),
            (''condition'', JStr (le_sign @ '' $140'')),
            (''price'', JNum (Finite 139.8)), (''status'', JStr ''success'')]]"

text \<open>\<open>loadAlerts()\<close> of the older script: without the table element the exception is
  caught before the assignment.\<close>

definition loadAlerts_static :: "(nat \<Rightarrow> real) \<Rightarrow> bool \<Rightarrow> state \<Rightarrow> state" where
  "loadAlerts_static clock has_table st =
     (if has_table then st\<lparr>alerts := mock_alerts clock\<rparr> else st)"

text \<open>\<open>addNewAlert(alert)\<close> of the older script: the same text, with that \<open>loadAlerts\<close>.\<close>

definition addNewAlert_static ::
  "(real \<Rightarrow> string) \<Rightarrow> (nat \<Rightarrow> real) \<Rightarrow> bool \<Rightarrow> js_value \<Rightarrow> state \<Rightarrow> after_call" where
  "addNewAlert_static nts clock has_table alert st =
     (let st1 = st\<lparr>alerts := unshift alert (alerts st)\<rparr>;
          st2 = (if length (alerts st1) > 10 then st1\<lparr>alerts := pop (alerts st1)\<rparr> else st1);
          st3 = loadAlerts_static clock has_table st2
      in \<lparr>state_after = st3,
          started = [],
          thrown = (case notification_text nts alert of Inl e \<Rightarrow> Some e | Inr notice \<Rightarrow> None)\<rparr>)"

subsection \<open>Sample inputs\<close>

text \<open>
  Host functions for running the scripts on samples. An integer below \<open>10^21\<close> that is not
  negative is printed by \<open>Number::toString\<close> as its decimal digits; \<open>JSON.parse\<close> reads
  \<open>{}\<close> as the empty object and rejects a lone brace; the Unicode table sends the sharp s
  (bytes C3 9F) to \<open>SS\<close>.
\<close>

definition integer_toString :: "real \<Rightarrow> string" where
  "integer_toString r = decimal (nat \<lfloor>r\<rfloor>)"

definition sample_parse :: "string \<Rightarrow> js_error + js_value" where
  "sample_parse s =
     (if s = ''{}'' then Inr (JObj []) else Inl (SyntaxError ''Unexpected end of JSON input''))"

definition sharp_s :: string where
  "sharp_s = [CHR 0xC3, CHR 0x9F]"

definition sample_uni :: "string \<Rightarrow> string" where
  "sample_uni run = (if run = sharp_s then ''SS'' else run)"

definition sample_getTime :: "js_value \<Rightarrow> js_number" where
  "sample_getTime v = Finite 1735689600000"

definition sample_formatTime :: "js_number \<Rightarrow> string" where
  "sample_formatTime t = ''2025/1/1''"

text \<open>\<open>utils.formatPrice\<close> on a whole number from 1000 on: the digits in groups of three
  and two decimals, as \<open>toLocaleString('en-US', ...)\<close> prints them.\<close>

definition group_thousands :: "string \<Rightarrow> string" where
  "group_thousands ds =
     concat (map (\<lambda>(i, d). if 0 < i \<and> (length ds - i) mod 3 = 0 then [CHR '','', d] else [d])
                 (enumerate 0 ds))"

definition sample_formatPrice :: "js_value \<Rightarrow> js_error + string" where
  "sample_formatPrice v =
     (case v of JNum (Finite r) \<Rightarrow> Inr (''$'' @ group_thousands (integer_toString r) @ ''.00'')
              | _ \<Rightarrow> Inl (TypeError ''num.toFixed is not a function''))"

text \<open>Alerts as the server lists them.\<close>

definition alert_with :: "js_value \<Rightarrow> string \<Rightarrow> js_value \<Rightarrow> js_value" where
  "alert_with tid msg sent =
     JObj [(''alert_id'', JNum (Finite 7)), (''task_id'', tid), (''symbol'', JStr ''BTC''),
           (''message'', JStr msg), (''trigger_price'', JNum (Finite 50125)),
           (''triggered_at'', JStr ''2025-01-01T00:00:00Z''), (''sent_success'', sent)]"

definition above_message :: string where
  "above_message = ''BTC '' @ break_above @ '' 50000''"

text \<open>Alert messages with a price written with a thousands separator, and with a ticker
  that starts with a digit.\<close>

definition comma_message :: string where
  "comma_message = ''BTC '' @ break_above @ '' $50,000.00''"

definition inch_message :: string where
  "inch_message = ''1INCH '' @ drop_below @ '' 0.5''"

text \<open>A response of the server, and a network on which every request gets it.\<close>

definition response_with :: "bool \<Rightarrow> nat \<Rightarrow> js_error + js_value \<Rightarrow> response" where
  "response_with is_ok code parsed = \<lparr>ok = is_ok, status = code, statusText = ''status'', json = parsed\<rparr>"

definition blank_page :: page where
  "blank_page = \<lparr>location_href = ''/index.html'', console = []\<rparr>"

text \<open>A state that holds the given alerts.\<close>

definition state_with :: "js_value list \<Rightarrow> state" where
  "state_with xs = \<lparr>prices = [], tasks = [], alerts = xs, systemStatus = JObj []\<rparr>"

text \<open>A clock that stands still.\<close>

definition sample_clock :: "nat \<Rightarrow> real" where
  "sample_clock k = 1735689600000"

section \<open>Verified properties\<close>

subsection \<open>What the creation form posts\<close>


lemma createTask_price_config:
  assumes "createTask uni pInt pFloat ev = Inr td"
      and "rule_type td = Some (FText ''PRICE_THRESHOLD'')"
  shows "rule_config td =
          (if FormData_get (formData ev) ''price_condition'' = Some (FText ''above'')
           then [(''threshold_high'', pFloat (entry_ToString (FormData_get (formData ev) ''threshold_price'')))]
           else [(''threshold_low'', pFloat (entry_ToString (FormData_get (formData ev) ''threshold_price'')))])"
  using assms
  by (auto simp: createTask_def Let_def split: option.splits form_entry.splits if_splits)





lemma btc_above_form_posted:
  "createTask sample_uni (\<lambda>_. Finite 42) (\<lambda>_. Finite 50000) btc_above_form =
     Inr \<lparr>user_id = Finite 42, symbol = ''BTC'', rule_type = Some (FText ''PRICE_THRESHOLD''),
          rule_config = [(''threshold_high'', Finite 50000)]\<rparr>"
  by (simp add: createTask_def btc_above_form_def FormData_get_def is_ascii_def
      upper_char_def lower_letters_def upper_letters_def)


text \<open>
  C1, as the code has it. For every PRICE_THRESHOLD task that the creation form posts, the
  posted \<open>rule_config\<close> has exactly one of \<open>threshold_high\<close> and \<open>threshold_low\<close>:
  \<open>threshold_high\<close> when the form's \<open>price_condition\<close> is \<open>above\<close>, \<open>threshold_low\<close>
  otherwise. So it has at least one bound, and never both.
\<close>

theorem createTask_threshold_exactly_one:
  assumes "createTask uni pInt pFloat ev = Inr td"
      and "rule_type td = Some (FText ''PRICE_THRESHOLD'')"
  shows "(has_key (rule_config td) ''threshold_high'' \<or> has_key (rule_config td) ''threshold_low'')
       \<and> \<not> (has_key (rule_config td) ''threshold_high'' \<and> has_key (rule_config td) ''threshold_low'')
       \<and> (has_key (rule_config td) ''threshold_high''
            \<longleftrightarrow> FormData_get (formData ev) ''price_condition'' = Some (FText ''above''))"
  using createTask_price_config [OF assms]
  by (simp add: has_key_def)

theorem createTask_threshold_exactly_one_witness:
  "createTask sample_uni (\<lambda>_. Finite 42) (\<lambda>_. Finite 50000) btc_above_form =
     Inr \<lparr>user_id = Finite 42, symbol = ''BTC'', rule_type = Some (FText ''PRICE_THRESHOLD''),
          rule_config = [(''threshold_high'', Finite 50000)]\<rparr>
   \<and> has_key [(''threshold_high'', Finite 50000)] ''threshold_high''
   \<and> \<not> has_key [(''threshold_high'', Finite 50000 :: js_number)] ''threshold_low''"
  using createTask_threshold_exactly_one [OF btc_above_form_posted] btc_above_form_posted
  by (simp add: has_key_def)

text \<open>
  The claim as the specification words it (every posted PRICE_THRESHOLD configuration has
  a bound, and some form input posts both bounds) does not hold: no form input posts both.
\<close>

theorem createTask_band_counterexample:
  "\<not> ((\<forall>uni pInt pFloat ev td.
          createTask uni pInt pFloat ev = Inr td \<and> rule_type td = Some (FText ''PRICE_THRESHOLD'')
          \<longrightarrow> has_key (rule_config td) ''threshold_high'' \<or> has_key (rule_config td) ''threshold_low'')
      \<and> (\<exists>uni pInt pFloat ev td.
          createTask uni pInt pFloat ev = Inr td \<and> rule_type td = Some (FText ''PRICE_THRESHOLD'')
          \<and> has_key (rule_config td) ''threshold_high'' \<and> has_key (rule_config td) ''threshold_low''))"
proof
  assume "(\<forall>uni pInt pFloat ev td.
          createTask uni pInt pFloat ev = Inr td \<and> rule_type td = Some (FText ''PRICE_THRESHOLD'')
          \<longrightarrow> has_key (rule_config td) ''threshold_high'' \<or> has_key (rule_config td) ''threshold_low'')
      \<and> (\<exists>uni pInt pFloat ev td.
          createTask uni pInt pFloat ev = Inr td \<and> rule_type td = Some (FText ''PRICE_THRESHOLD'')
          \<and> has_key (rule_config td) ''threshold_high'' \<and> has_key (rule_config td) ''threshold_low'')"
  then obtain uni pInt pFloat ev td where
    run: "createTask uni pInt pFloat ev = Inr td" "rule_type td = Some (FText ''PRICE_THRESHOLD'')"
    and both: "has_key (rule_config td) ''threshold_high''" "has_key (rule_config td) ''threshold_low''"
    by blast
  from createTask_price_config [OF run] both show False
    by (simp add: has_key_def split: if_splits)
qed



subsection \<open>Escaping HTML\<close>

lemma replace_global_append:
  "replace_global c rep (xs @ ys) = replace_global c rep xs @ replace_global c rep ys"
  by (simp add: replace_global_def)

lemma replace_global_Nil: "replace_global c rep [] = []"
  by (simp add: replace_global_def)

lemma replace_global_Cons:
  "replace_global c rep (x # xs) = (if x = c then rep else [x]) @ replace_global c rep xs"
  by (simp add: replace_global_def)

lemma escape_chain_Nil: "escape_chain [] = []"
  by (simp add: escape_chain_def replace_global_Nil)

text \<open>The five passes act on one input character like a single pass: a later pass finds
  nothing to replace in what an earlier one inserted.\<close>

lemma escape_chain_Cons: "escape_chain (c # s) = entity_of c @ escape_chain s"
  by (simp add: escape_chain_def entity_of_def replace_global_Cons replace_global_append
      replace_global_Nil double_quote_def single_quote_def)

lemma escape_chain_concat: "escape_chain s = concat (map entity_of s)"
  by (induction s) (simp_all add: escape_chain_Nil escape_chain_Cons)

lemma entity_of_no_raw:
  "set (entity_of c) \<inter> {CHR ''<'', CHR ''>'', double_quote, single_quote} = {}"
  by (simp add: entity_of_def double_quote_def single_quote_def)

lemma escape_chain_no_raw:
  "set (escape_chain s) \<inter> {CHR ''<'', CHR ''>'', double_quote, single_quote} = {}"
proof (induction s)
  case Nil
  show ?case by (simp add: escape_chain_Nil)
next
  case (Cons c s)
  from Cons.IH entity_of_no_raw [of c] show ?case
    unfolding escape_chain_Cons set_append by blast
qed

lemma amp_heads_entity_step:
  "amp_heads_entity ys \<Longrightarrow> amp_heads_entity (entity_of c @ ys)"
  by (simp add: entity_of_def entities_def double_quote_def single_quote_def)

lemma escape_chain_amp: "amp_heads_entity (escape_chain s)"
  by (induction s) (simp_all add: escape_chain_Nil escape_chain_Cons amp_heads_entity_step)

text \<open>
  C9, as the code has it. For a string, \<open>DOMUtils.escapeHtml\<close> returns the text with every
  \<open>&\<close>, \<open><\<close>, \<open>>\<close>, double quote and single quote replaced by its entity and every other
  character kept; the result holds no \<open><\<close>, \<open>>\<close>, double quote or single quote, and each
  \<open>&\<close> in it is the first character of one of the five entities. A value that is not a
  string is returned as \<open>String\<close> converts it, without escaping: the words \<open>undefined\<close>,
  \<open>null\<close>, \<open>true\<close> and \<open>false\<close>, the text of a number, the joined elements of an array,
  and \<open>[object Object]\<close> for an object. The function throws a \<open>TypeError\<close> where that
  conversion does: for an object that has an own property \<open>toString\<close>, and for an array
  with an element on which it throws.
\<close>

theorem escapeHtml_safe:
  "(case v of
      JStr s \<Rightarrow>
        escapeHtml nts v = Inr (concat (map entity_of s))
        \<and> set (concat (map entity_of s)) \<inter> {CHR ''<'', CHR ''>'', double_quote, single_quote} = {}
        \<and> amp_heads_entity (concat (map entity_of s))
    | JUndefined \<Rightarrow> escapeHtml nts v = Inr ''undefined''
    | JNull \<Rightarrow> escapeHtml nts v = Inr ''null''
    | JBool b \<Rightarrow> escapeHtml nts v = Inr (if b then ''true'' else ''false'')
    | JNum n \<Rightarrow> escapeHtml nts v = Inr (Number_toString nts n)
    | JArr xs \<Rightarrow>
        escapeHtml nts v =
          (case ToString_elements nts xs of Inl e \<Rightarrow> Inl e | Inr ss \<Rightarrow> Inr (join '','' ss))
    | JObj kvs \<Rightarrow>
        escapeHtml nts v =
          (if has_key kvs ''toString''
           then Inl (TypeError ''Cannot convert object to primitive value'')
           else Inr ''[object Object]''))"
proof (cases v)
  case (JStr s)
  have "escapeHtml nts (JStr s) = Inr (escape_chain s)" by simp
  with escape_chain_concat [of s] escape_chain_no_raw [of s] escape_chain_amp [of s] JStr
  show ?thesis by simp
qed simp_all

theorem escapeHtml_safe_witness:
  "escapeHtml integer_toString (JStr ''<a href=x>T&C</a>'') = Inr ''&lt;a href=x&gt;T&amp;C&lt;/a&gt;''
   \<and> amp_heads_entity ''&lt;a href=x&gt;T&amp;C&lt;/a&gt;''
   \<and> escapeHtml integer_toString JNull = Inr ''null''
   \<and> escapeHtml integer_toString (JObj [(''a'', JNull)]) = Inr ''[object Object]''
   \<and> escapeHtml integer_toString (JArr [JStr ''<b>'', JNull, JBool True]) = Inr ''<b>,,true''"
  using escapeHtml_safe [where v = "JStr ''<a href=x>T&C</a>''" and nts = integer_toString]
        escapeHtml_safe [where v = JNull and nts = integer_toString]
        escapeHtml_safe [where v = "JObj [(''a'', JNull)]" and nts = integer_toString]
        escapeHtml_safe [where v = "JArr [JStr ''<b>'', JNull, JBool True]" and nts = integer_toString]
  by (simp add: entity_of_def entities_def double_quote_def single_quote_def has_key_def)

text \<open>
  The function is not total on every input: an object of the server's JSON with a property
  named \<open>toString\<close> makes \<open>String(unsafe)\<close> throw, alone or as an element of an array.
\<close>

theorem escapeHtml_throws_counterexample:
  "escapeHtml integer_toString (JObj [(''toString'', JNum (Finite 1))]) =
     Inl (TypeError ''Cannot convert object to primitive value'')
   \<and> escapeHtml integer_toString (JArr [JStr ''BTC'', JObj [(''toString'', JNum (Finite 1))]]) =
     Inl (TypeError ''Cannot convert object to primitive value'')
   \<and> (\<forall>r. escapeHtml integer_toString (JObj [(''toString'', JNum (Finite 1))]) \<noteq> Inr r)"
  by (simp add: has_key_def)

subsection \<open>Percentages\<close>

lemma decimal_small: "(n::nat) < 10 \<Longrightarrow> decimal n = [digit_char n]"
  by (simp add: decimal.simps)

lemma decimal_large: "(10::nat) \<le> n \<Longrightarrow> decimal n = decimal (n div 10) @ [digit_char (n mod 10)]"
  by (subst decimal.simps) simp

lemma decimal_hundreds:
  assumes "(100::nat) \<le> n"
  shows "decimal n = decimal (n div 100) @ [digit_char (n div 10 mod 10), digit_char (n mod 10)]"
proof -
  from assms have "10 \<le> n" and "10 \<le> n div 10" by simp_all
  then have "decimal n = (decimal (n div 10 div 10) @ [digit_char (n div 10 mod 10)]) @ [digit_char (n mod 10)]"
    by (simp add: decimal_large)
  moreover have "n div 10 div 10 = n div 100" by (simp add: div_mult2_eq)
  ultimately show ?thesis by simp
qed

lemma length_decimal_pos: "0 < length (decimal n)"
  by (subst decimal.simps) simp

text \<open>Padding and placing the point, on the digits of \<open>n\<close>, prints \<open>n\<close> hundredths.\<close>

lemma insert_point_decimal: "insert_point 2 (decimal n) = two_decimals n"
proof -
  consider "n < 10" | "10 \<le> n" "n < 100" | "100 \<le> n" by linarith
  then show ?thesis
  proof cases
    case 1
    then show ?thesis
      by (simp add: decimal_small insert_point_def two_decimals_def Let_def digit_char_def numeral_2_eq_2)
  next
    case 2
    then have "n div 10 < 10" by simp
    with 2 have "decimal n = [digit_char (n div 10), digit_char (n mod 10)]"
      by (simp add: decimal_large decimal_small)
    with 2 show ?thesis
      by (simp add: insert_point_def two_decimals_def Let_def decimal_small digit_char_def)
  next
    case 3
    have "0 < length (decimal (n div 100))" by (rule length_decimal_pos)
    with 3 show ?thesis
      by (simp add: insert_point_def two_decimals_def Let_def decimal_hundreds)
  qed
qed

text \<open>The count of hundredths that \<open>toFixed(2)\<close> prints is a nearest one.\<close>

lemma round_half_up_close:
  fixes x :: real
  assumes "0 \<le> x"
  shows "\<bar>real (nat \<lfloor>x * 100 + 1 / 2\<rfloor>) / 100 - x\<bar> \<le> 1 / 200"
proof -
  define k where "k = \<lfloor>x * 100 + 1 / 2\<rfloor>"
  have nn: "0 \<le> k" using assms by (simp add: k_def)
  have lo: "real_of_int k \<le> x * 100 + 1 / 2"
    and hi: "x * 100 + 1 / 2 < real_of_int k + 1"
    unfolding k_def by linarith+
  from nn have "real (nat k) = real_of_int k" by simp
  with lo hi have "\<bar>real (nat k) / 100 - x\<bar> \<le> 1 / 200"
    unfolding abs_le_iff by linarith
  then show ?thesis by (simp add: k_def)
qed

lemma dot_in_two_decimals: "CHR ''.'' \<in> set (two_decimals n)"
  by (simp add: two_decimals_def)

text \<open>
  C4, as the code has it. For every finite number \<open>v\<close> of magnitude below \<open>10^21\<close>,
  \<open>utils.formatPercentage(v)\<close> returns \<open>+\<close> when \<open>v \<ge> 0\<close> and \<open>-\<close> when \<open>v < 0\<close>, then the
  magnitude of \<open>v\<close> rounded to a nearest hundredth and printed with exactly two decimals,
  then \<open>%\<close>.
\<close>

theorem formatPercentage_two_decimals:
  assumes "\<bar>v\<bar> < 10 ^ 21"
  shows "formatPercentage nts (JNum (Finite v)) =
           Inr ((if 0 \<le> v then ''+'' else ''-'') @ two_decimals (nat \<lfloor>\<bar>v\<bar> * 100 + 1 / 2\<rfloor>) @ ''%'')
       \<and> \<bar>real (nat \<lfloor>\<bar>v\<bar> * 100 + 1 / 2\<rfloor>) / 100 - \<bar>v\<bar>\<bar> \<le> 1 / 200"
proof (cases "0 \<le> v")
  case True
  with assms have "\<not> 10 ^ 21 \<le> v" by simp
  with True show ?thesis
    using round_half_up_close [of v]
    by (simp add: toFixed_def Let_def insert_point_decimal)
next
  case False
  with assms have "\<not> 10 ^ 21 \<le> - v" by simp
  with False show ?thesis
    using round_half_up_close [of "- v"]
    by (simp add: toFixed_def Let_def insert_point_decimal abs_if)
qed

theorem formatPercentage_two_decimals_witness:
  "\<bar>5.114 :: real\<bar> < 10 ^ 21
   \<and> formatPercentage (\<lambda>_. []) (JNum (Finite 5.114)) = Inr ''+5.11%''
   \<and> formatPercentage (\<lambda>_. []) (JNum (Finite (- 12.345))) = Inr ''-12.35%''"
  using formatPercentage_two_decimals [where v = "5.114" and nts = "\<lambda>_. []"]
        formatPercentage_two_decimals [where v = "- 12.345" and nts = "\<lambda>_. []"]
  by (simp add: two_decimals_def decimal_small decimal_large digit_char_def)

text \<open>
  The claim for every finite number does not hold: from \<open>10^21\<close> on, \<open>toFixed\<close> hands the
  number to \<open>Number::toString\<close>, which prints \<open>10^21\<close> as \<open>1e+21\<close>, and the result has no
  decimals at all.
\<close>

theorem formatPercentage_huge_counterexample:
  "formatPercentage (\<lambda>_. ''1e+21'') (JNum (Finite (10 ^ 21))) = Inr ''+1e+21%''
   \<and> (\<forall>n. formatPercentage (\<lambda>_. ''1e+21'') (JNum (Finite (10 ^ 21)))
            \<noteq> Inr (''+'' @ two_decimals n @ ''%''))"
proof -
  have run: "formatPercentage (\<lambda>_. ''1e+21'') (JNum (Finite (10 ^ 21))) = Inr ''+1e+21%''"
    by (simp add: toFixed_def Let_def)
  have "''+1e+21%'' \<noteq> ''+'' @ two_decimals n @ ''%''" for n
  proof
    assume eq: "''+1e+21%'' = ''+'' @ two_decimals n @ ''%''"
    have "CHR ''.'' \<in> set (''+'' @ two_decimals n @ ''%'')"
      using dot_in_two_decimals [of n] by simp
    then have "CHR ''.'' \<in> set ''+1e+21%''"
      unfolding eq [symmetric] .
    then show False by simp
  qed
  with run show ?thesis by simp
qed

subsection \<open>Steps that may throw\<close>

lemma and_then_eq_Inr: "and_then r f = Inr y \<longleftrightarrow> (\<exists>x. r = Inr x \<and> f x = Inr y)"
  by (cases r) (simp_all add: and_then_def)

lemma and_then_Inr: "and_then (Inr x) f = f x"
  by (simp add: and_then_def)

lemma get_prop_Inr_total:
  assumes "get_prop v k = Inr x"
  shows "\<exists>y. get_prop v k' = Inr y"
  using assms by (cases v) simp_all

subsection \<open>Rows of the alert table\<close>

lemma alert_to_view_type:
  assumes "alert_to_view getTime alert = Inr view"
      and "get_prop alert ''task_id'' = Inr task_id"
  shows "view_type view = (if truthy task_id then monitor_alert else system_alert)"
  using assms unfolding alert_to_view_def and_then_eq_Inr by auto


lemma alert_to_view_props:
  assumes "alert_to_view getTime alert = Inr view"
  shows "\<exists>x. get_prop alert k = Inr x"
proof -
  from assms obtain t where "get_prop alert ''triggered_at'' = Inr t"
    unfolding alert_to_view_def and_then_eq_Inr by blast
  then show ?thesis by (rule get_prop_Inr_total)
qed

lemma createElement_text:
  "createElement nts tg [] (JStr s) = Inr (Element tg [] [] s [])"
  by (cases s) (simp_all add: createElement_def and_then_def)

lemma createElement_badge:
  "s \<noteq> [] \<Longrightarrow> createElement nts tg [(''className'', c)] (JStr s) = Inr (Element tg [] c s [])"
  by (simp add: createElement_def and_then_def)

lemma sent_label_nonempty: "sent_label \<noteq> []"
  by (simp add: sent_label_def)

lemma createAlertRow_InrD:
  assumes "createAlertRow nts formatTime formatPrice view = Inr row"
  shows "\<exists>timeCell symbolCell conditionCell priceCell.
           row = Element ''tr'' [] [] []
                  [timeCell, symbolCell, Element ''td'' [] [] (view_type view) [], conditionCell, priceCell,
                   Element ''td'' [] [] []
                     [Element ''span'' [] (''status-badge '' @ view_status view) sent_label []]]"
  using assms sent_label_nonempty
  unfolding createAlertRow_def Let_def and_then_eq_Inr
  by (auto simp: createElement_text createElement_badge)

lemma render_alert_InrD:
  assumes "render_alert nts getTime formatTime formatPrice alert = Inr row"
  shows "\<exists>view. alert_to_view getTime alert = Inr view
              \<and> createAlertRow nts formatTime formatPrice view = Inr row"
  using assms unfolding render_alert_def and_then_eq_Inr .

subsection \<open>Evaluating the samples\<close>

lemmas text_defs = ge_sign_def le_sign_def break_above_def drop_below_def rise_def fall_def
  price_word_def alert_word_def alert_fired_def target_price_def change_range_def config_error_def
  monitor_alert_def system_alert_def sent_label_def request_failed_def

lemma decimal_eval:
  "decimal 0 = ''0''" "decimal 100 = ''100''" "decimal 120 = ''120''" "decimal 50125 = ''50125''"
  by (simp_all add: decimal_small decimal_large digit_char_def)

lemma sample_price: "sample_formatPrice (JNum (Finite 50125)) = Inr ''$50,125.00''"
  by (simp add: sample_formatPrice_def integer_toString_def decimal_eval group_thousands_def)

lemmas render_defs = render_alert_def alert_to_view_def alert_with_def and_then_def createAlertRow_def
  createElement_def parseAlertMessage_def sample_getTime_def sample_formatTime_def sample_price
  above_message_def match_number_at_def is_digit_def

lemma failed_alert_row:
  "render_alert integer_toString sample_getTime sample_formatTime sample_formatPrice
     (alert_with JNull ''restart'' (JBool False)) =
   Inr (Element ''tr'' [] [] []
      [Element ''td'' [] [] ''2025/1/1'' [],
       Element ''td'' [] [] [] [Element ''strong'' [] [] ''BTC'' []],
       Element ''td'' [] [] system_alert [],
       Element ''td'' [] [] alert_fired [],
       Element ''td'' [] [] ''$50,125.00'' [],
       Element ''td'' [] [] [] [Element ''span'' [] ''status-badge error'' sent_label []]])"
  by (simp add: render_defs text_defs)

lemma delivered_alert_row:
  "render_alert integer_toString sample_getTime sample_formatTime sample_formatPrice
     (alert_with (JNum (Finite 3)) above_message (JBool True)) =
   Inr (Element ''tr'' [] [] []
      [Element ''td'' [] [] ''2025/1/1'' [],
       Element ''td'' [] [] [] [Element ''strong'' [] [] ''BTC'' []],
       Element ''td'' [] [] monitor_alert [],
       Element ''td'' [] [] (price_word @ '' '' @ ge_sign @ '' $50000'') [],
       Element ''td'' [] [] ''$50,125.00'' [],
       Element ''td'' [] [] [] [Element ''span'' [] ''status-badge success'' sent_label []]])"
  by (simp add: render_defs text_defs)

lemma zero_task_alert_row:
  "render_alert integer_toString sample_getTime sample_formatTime sample_formatPrice
     (alert_with (JNum (Finite 0)) above_message (JBool True)) =
   Inr (Element ''tr'' [] [] []
      [Element ''td'' [] [] ''2025/1/1'' [],
       Element ''td'' [] [] [] [Element ''strong'' [] [] ''BTC'' []],
       Element ''td'' [] [] system_alert [],
       Element ''td'' [] [] (price_word @ '' '' @ ge_sign @ '' $50000'') [],
       Element ''td'' [] [] ''$50,125.00'' [],
       Element ''td'' [] [] [] [Element ''span'' [] ''status-badge success'' sent_label []]])"
  by (simp add: render_defs text_defs)


lemma comma_message_parsed:
  "str_includes comma_message break_above"
  "parseAlertMessage comma_message = price_word @ '' '' @ ge_sign @ '' $50''"
  "\<not> str_includes (parseAlertMessage comma_message) ''50,000''"
  by (simp_all add: comma_message_def parseAlertMessage_def match_number_at_def is_digit_def text_defs)

lemma inch_message_parsed:
  "str_includes inch_message drop_below"
  "parseAlertMessage inch_message = price_word @ '' '' @ le_sign @ '' $1''"
  "\<not> str_includes (parseAlertMessage inch_message) ''0.5''"
  by (simp_all add: inch_message_def parseAlertMessage_def match_number_at_def is_digit_def text_defs)

lemmas card_defs = createTaskCard_ruleDetail_def rule_detail_try_def resolve_config_def
  task_with_def and_then_def

lemma empty_config_card:
  "createTaskCard_ruleDetail parse nts (task_with ''PRICE_THRESHOLD'' (JObj [])) = Inr []"
  "createTaskCard_ruleDetail sample_parse nts (task_with ''PRICE_THRESHOLD'' (JStr ''{}'')) = Inr []"
  "createTaskCard_ruleDetail sample_parse nts (task_with ''PRICE_THRESHOLD'' (JStr ''{'')) = Inr config_error"
  "createTaskCard_ruleDetail parse nts (task_with ''PRICE_THRESHOLD'' JNull) = Inr config_error"
  "config_error \<noteq> []"
  by (simp_all add: card_defs sample_parse_def config_error_def)

lemma band_card:
  "createTaskCard_ruleDetail sample_parse integer_toString
     (task_with ''PRICE_THRESHOLD''
        (JObj [(''threshold_high'', JNum (Finite 120)), (''threshold_low'', JNum (Finite 100))])) =
   Inr (target_price @ '': '' @ ge_sign @ '' $120'')"
  "\<not> str_includes (target_price @ '': '' @ ge_sign @ '' $120'') le_sign"
  "\<not> str_includes (target_price @ '': '' @ ge_sign @ '' $120'') ''100''"
  by (simp_all add: card_defs integer_toString_def decimal_eval text_defs)

subsection \<open>Status and type of an alert row\<close>




lemma monitor_not_system: "monitor_alert \<noteq> system_alert"
  by (simp add: monitor_alert_def system_alert_def)

text \<open>
  C6, as the code has it. For every alert that \<open>loadAlerts\<close> renders, the type cell reads
  "monitoring alert" exactly when \<open>task_id\<close> is truthy (not \<open>null\<close>, and not missing, \<open>0\<close>,
  \<open>NaN\<close>, the empty string or \<open>false\<close>), and "system alert" otherwise; in particular it
  reads "system alert" when \<open>task_id\<close> is \<open>null\<close>.
\<close>

theorem alert_row_type:
  assumes "render_alert nts getTime formatTime formatPrice alert = Inr row"
  shows "\<exists>task_id timeCell symbolCell typeCell conditionCell priceCell statusCell.
            get_prop alert ''task_id'' = Inr task_id
          \<and> row = Element ''tr'' [] [] []
                    [timeCell, symbolCell, typeCell, conditionCell, priceCell, statusCell]
          \<and> tag typeCell = ''td''
          \<and> (textContent typeCell = monitor_alert \<longleftrightarrow> truthy task_id)
          \<and> (textContent typeCell = system_alert \<longleftrightarrow> \<not> truthy task_id)
          \<and> (task_id = JNull \<longrightarrow> textContent typeCell = system_alert)"
proof -
  from render_alert_InrD [OF assms] obtain view where
    view: "alert_to_view getTime alert = Inr view"
    and row: "createAlertRow nts formatTime formatPrice view = Inr row"
    by blast
  from alert_to_view_props [OF view] obtain task_id where
    tid: "get_prop alert ''task_id'' = Inr task_id"
    by blast
  have ty: "view_type view = (if truthy task_id then monitor_alert else system_alert)"
    by (rule alert_to_view_type [OF view tid])
  from createAlertRow_InrD [OF row] obtain timeCell symbolCell conditionCell priceCell where
    "row = Element ''tr'' [] [] []
             [timeCell, symbolCell, Element ''td'' [] [] (view_type view) [], conditionCell, priceCell,
              Element ''td'' [] [] []
                [Element ''span'' [] (''status-badge '' @ view_status view) sent_label []]]"
    by blast
  with tid ty monitor_not_system show ?thesis by auto
qed

theorem alert_row_type_witness:
  "render_alert integer_toString sample_getTime sample_formatTime sample_formatPrice
     (alert_with (JNum (Finite 3)) above_message (JBool True)) =
   Inr (Element ''tr'' [] [] []
      [Element ''td'' [] [] ''2025/1/1'' [],
       Element ''td'' [] [] [] [Element ''strong'' [] [] ''BTC'' []],
       Element ''td'' [] [] monitor_alert [],
       Element ''td'' [] [] (price_word @ '' '' @ ge_sign @ '' $50000'') [],
       Element ''td'' [] [] ''$50,125.00'' [],
       Element ''td'' [] [] [] [Element ''span'' [] ''status-badge success'' sent_label []]])
  \<and> get_prop (alert_with (JNum (Finite 3)) above_message (JBool True)) ''task_id'' = Inr (JNum (Finite 3))
  \<and> truthy (JNum (Finite 3))"
  using alert_row_type [OF delivered_alert_row] delivered_alert_row
  by (simp add: alert_with_def)

text \<open>
  The claim with "non-null" in place of "truthy" does not hold: an alert whose \<open>task_id\<close> is
  the number \<open>0\<close> is tied to a task id that is not \<open>null\<close>, and is shown as a system alert.
\<close>

theorem alert_row_type_counterexample:
  "get_prop (alert_with (JNum (Finite 0)) above_message (JBool True)) ''task_id'' = Inr (JNum (Finite 0))
   \<and> JNum (Finite 0) \<noteq> JNull
   \<and> render_alert integer_toString sample_getTime sample_formatTime sample_formatPrice
       (alert_with (JNum (Finite 0)) above_message (JBool True)) =
     Inr (Element ''tr'' [] [] []
      [Element ''td'' [] [] ''2025/1/1'' [],
       Element ''td'' [] [] [] [Element ''strong'' [] [] ''BTC'' []],
       Element ''td'' [] [] system_alert [],
       Element ''td'' [] [] (price_word @ '' '' @ ge_sign @ '' $50000'') [],
       Element ''td'' [] [] ''$50,125.00'' [],
       Element ''td'' [] [] [] [Element ''span'' [] ''status-badge success'' sent_label []]])
   \<and> system_alert \<noteq> monitor_alert"
  using zero_task_alert_row monitor_not_system
  by (simp add: alert_with_def)

subsection \<open>The number and the bounds of a threshold\<close>

text \<open>
  C5. The condition that \<open>parseAlertMessage\<close> extracts carries the first run of digits of
  the message, not the threshold: a price written with a thousands separator is cut at the
  comma, and a ticker that starts with a digit supplies the number. The card of a task with
  both bounds shows the upper bound only.
\<close>

theorem threshold_display_failing:
  "str_includes comma_message break_above
   \<and> parseAlertMessage comma_message = price_word @ '' '' @ ge_sign @ '' $50''
   \<and> \<not> str_includes (parseAlertMessage comma_message) ''50,000''
   \<and> str_includes inch_message drop_below
   \<and> parseAlertMessage inch_message = price_word @ '' '' @ le_sign @ '' $1''
   \<and> \<not> str_includes (parseAlertMessage inch_message) ''0.5''
   \<and> createTaskCard_ruleDetail sample_parse integer_toString
         (task_with ''PRICE_THRESHOLD''
            (JObj [(''threshold_high'', JNum (Finite 120)), (''threshold_low'', JNum (Finite 100))])) =
       Inr (target_price @ '': '' @ ge_sign @ '' $120'')
   \<and> \<not> str_includes (target_price @ '': '' @ ge_sign @ '' $120'') le_sign
   \<and> \<not> str_includes (target_price @ '': '' @ ge_sign @ '' $120'') ''100''"
  using comma_message_parsed inch_message_parsed band_card
  by simp

subsection \<open>A configuration without bounds\<close>

text \<open>
  C2. A PRICE_THRESHOLD task whose configuration is the empty object, given as an object or
  as the text \<open>{}\<close>, gets an empty rule detail on its card, whereas a configuration that
  does not parse, or is \<open>null\<close>, gets the detail "configuration error".
\<close>

theorem empty_config_detail_blank:
  "createTaskCard_ruleDetail sample_parse integer_toString (task_with ''PRICE_THRESHOLD'' (JObj [])) = Inr []
   \<and> createTaskCard_ruleDetail sample_parse integer_toString (task_with ''PRICE_THRESHOLD'' (JStr ''{}'')) = Inr []
   \<and> createTaskCard_ruleDetail sample_parse integer_toString (task_with ''PRICE_THRESHOLD'' (JStr ''{'')) = Inr config_error
   \<and> createTaskCard_ruleDetail sample_parse integer_toString (task_with ''PRICE_THRESHOLD'' JNull) = Inr config_error
   \<and> config_error \<noteq> []"
  using empty_config_card by simp

subsection \<open>The API wrappers return\<close>

lemma catch_after_fetch:
  "fst (catch_error (after_fetch fetched pg)) = Inr (expected_value fetched)"
  "location_href (snd (catch_error (after_fetch fetched pg))) =
     (if unauthorized fetched then ''/login.html'' else location_href pg)"
  by (auto simp: catch_error_def after_fetch_def expected_value_def unauthorized_def
      split: sum.splits)

lemma catch_thrown:
  "fst (catch_error (Inl e, pg)) = Inr JNull"
  "location_href (snd (catch_error (Inl e, pg))) = location_href pg"
  by (simp_all add: catch_error_def)

text \<open>
  C10. \<open>api.get\<close>, \<open>api.post\<close> and \<open>api.delete\<close> return a value for every network, endpoint
  and payload, and no exception leaves them. The value is the parsed body for an OK
  response whose body parses, and \<open>null\<close> for a rejected \<open>fetch\<close>, a response that is not
  OK, a body that does not parse and a payload that cannot be serialised. The page is
  sent to the login page exactly for a response that is not OK with status 401.
\<close>

theorem api_wrappers_return:
  "fst (api_get fetch endpoint pg) = Inr (expected_value (fetch (get_request endpoint)))
   \<and> location_href (snd (api_get fetch endpoint pg)) =
        (if unauthorized (fetch (get_request endpoint)) then ''/login.html'' else location_href pg)
   \<and> fst (api_post fetch csrf stringify endpoint data pg) =
        Inr (case stringify data of
               Inl e \<Rightarrow> JNull
             | Inr text \<Rightarrow> expected_value (fetch (post_request csrf endpoint text)))
   \<and> location_href (snd (api_post fetch csrf stringify endpoint data pg)) =
        (case stringify data of
           Inl e \<Rightarrow> location_href pg
         | Inr text \<Rightarrow> if unauthorized (fetch (post_request csrf endpoint text))
                       then ''/login.html'' else location_href pg)
   \<and> fst (api_delete fetch csrf endpoint pg) = Inr (expected_value (fetch (delete_request csrf endpoint)))
   \<and> location_href (snd (api_delete fetch csrf endpoint pg)) =
        (if unauthorized (fetch (delete_request csrf endpoint)) then ''/login.html'' else location_href pg)"
  by (cases "stringify data")
     (simp_all add: api_get_def api_post_def api_delete_def catch_after_fetch catch_thrown)

theorem api_wrappers_return_witness:
  "fst (api_get (\<lambda>_. Inr (response_with False 401 (Inr JNull))) ''/tasks'' blank_page) = Inr JNull
   \<and> location_href (snd (api_get (\<lambda>_. Inr (response_with False 401 (Inr JNull))) ''/tasks'' blank_page))
       = ''/login.html''
   \<and> fst (api_get (\<lambda>_. Inl (TypeError ''Failed to fetch'')) ''/tasks'' blank_page) = Inr JNull
   \<and> fst (api_post (\<lambda>_. Inr (response_with True 200 (Inr (JObj [(''success'', JBool True)]))))
            ''token'' (\<lambda>d. Inr d) ''/tasks'' ''{}'' blank_page)
       = Inr (JObj [(''success'', JBool True)])
   \<and> fst (api_delete (\<lambda>_. Inr (response_with False 500 (Inr JNull))) ''token'' ''/tasks/1'' blank_page)
       = Inr JNull
   \<and> location_href (snd (api_delete (\<lambda>_. Inr (response_with False 500 (Inr JNull))) ''token''
            ''/tasks/1'' blank_page)) = ''/index.html''"
  using api_wrappers_return
          [where fetch = "\<lambda>_. Inr (response_with False 401 (Inr JNull))" and endpoint = "''/tasks''"
             and csrf = "''token''" and stringify = "\<lambda>d. Inr d" and data = "''{}''"
             and pg = blank_page]
        api_wrappers_return
          [where fetch = "\<lambda>_. Inl (TypeError ''Failed to fetch'')" and endpoint = "''/tasks''"
             and csrf = "''token''" and stringify = "\<lambda>d. Inr d" and data = "''{}''"
             and pg = blank_page]
        api_wrappers_return
          [where fetch = "\<lambda>_. Inr (response_with True 200 (Inr (JObj [(''success'', JBool True)])))"
             and csrf = "''token''" and stringify = "\<lambda>d. Inr d" and endpoint = "''/tasks''"
             and data = "''{}''" and pg = blank_page]
        api_wrappers_return
          [where fetch = "\<lambda>_. Inr (response_with False 500 (Inr JNull))"
             and csrf = "''token''" and stringify = "\<lambda>d. Inr d" and data = "''{}''"
             and endpoint = "''/tasks/1''" and pg = blank_page]
  by (simp add: expected_value_def unauthorized_def response_with_def blank_page_def)

subsection \<open>The alert list after a new alert\<close>

lemma unshift_pop_take:
  assumes "length xs \<le> 10"
  shows "(if length (unshift a xs) > 10 then pop (unshift a xs) else unshift a xs) = take 10 (a # xs)"
proof (cases "length xs = 10")
  case True
  then have "butlast (a # xs) = take 10 (a # xs)"
    by (simp add: butlast_conv_take)
  with True show ?thesis
    by (simp add: unshift_def pop_def)
next
  case False
  with assms have "length xs < 10" by simp
  then show ?thesis
    by (simp add: unshift_def pop_def)
qed

lemma addNewAlert_state:
  assumes "length (alerts st) \<le> 10"
  shows "alerts (state_after (addNewAlert nts a st)) = take 10 (a # alerts st)"
proof -
  have "alerts (state_after (addNewAlert nts a st)) =
          (if length (unshift a (alerts st)) > 10 then pop (unshift a (alerts st))
           else unshift a (alerts st))"
    by (simp add: addNewAlert_def Let_def)
  also have "\<dots> = take 10 (a # alerts st)"
    by (rule unshift_pop_take [OF assms])
  finally show ?thesis .
qed

lemma addNewAlert_static_state:
  assumes "length (alerts st) \<le> 10"
  shows "alerts (state_after (addNewAlert_static nts clock tbl a st)) =
           (if tbl then mock_alerts clock else take 10 (a # alerts st))"
proof (cases tbl)
  case True
  then show ?thesis
    by (simp add: addNewAlert_static_def loadAlerts_static_def Let_def)
next
  case False
  then have "alerts (state_after (addNewAlert_static nts clock tbl a st)) =
          (if length (unshift a (alerts st)) > 10 then pop (unshift a (alerts st))
           else unshift a (alerts st))"
    by (simp add: addNewAlert_static_def loadAlerts_static_def Let_def)
  also have "\<dots> = take 10 (a # alerts st)"
    by (rule unshift_pop_take [OF assms])
  finally show ?thesis using False by simp
qed

lemma loadAlerts_resume_alerts:
  "alerts (loadAlerts_resume nts getTime formatTime formatPrice tbl r st) = alerts st
   \<or> (\<exists>xs. r = JArr xs \<and> alerts (loadAlerts_resume nts getTime formatTime formatPrice tbl r st) = xs)"
  by (cases r) (simp_all add: loadAlerts_resume_def)

lemma length_mock_alerts: "length (mock_alerts clock) = 3"
  by (simp add: mock_alerts_def)

text \<open>
  C8, as the code has it. In the dashboard script with the API wrappers, for every state
  whose alert list holds at most 10 entries, when \<open>addNewAlert(alert)\<close> returns the list is
  the first ten of the new alert followed by the old list: the new alert is first, and the
  list holds at most 10 entries. A request for the alerts has been started; when it is
  answered, the list stays as it is or becomes the array that the server sent, whatever
  its length. In the older script, \<open>loadAlerts\<close> runs inside the call: when the page has
  the alert table the list becomes the three alerts written in the script, and otherwise
  it is as in the other script.
\<close>

theorem addNewAlert_bounded:
  assumes "length (alerts st) \<le> 10"
  shows "alerts (state_after (addNewAlert nts a st)) = take 10 (a # alerts st)
       \<and> alerts (state_after (addNewAlert nts a st)) \<noteq> []
       \<and> hd (alerts (state_after (addNewAlert nts a st))) = a
       \<and> length (alerts (state_after (addNewAlert nts a st))) \<le> 10
       \<and> started (addNewAlert nts a st) = [API_BASE @ ''/alerts?limit=10'']
       \<and> (alerts (loadAlerts_resume nts getTime formatTime formatPrice tbl r
                    (state_after (addNewAlert nts a st))) = take 10 (a # alerts st)
            \<or> (\<exists>xs. r = JArr xs
                  \<and> alerts (loadAlerts_resume nts getTime formatTime formatPrice tbl r
                              (state_after (addNewAlert nts a st))) = xs))
       \<and> alerts (state_after (addNewAlert_static nts clock tbl a st)) =
            (if tbl then mock_alerts clock else take 10 (a # alerts st))
       \<and> length (alerts (state_after (addNewAlert_static nts clock tbl a st))) \<le> 10"
proof -
  have now: "alerts (state_after (addNewAlert nts a st)) = take 10 (a # alerts st)"
    by (rule addNewAlert_state [OF assms])
  have req: "started (addNewAlert nts a st) = [API_BASE @ ''/alerts?limit=10'']"
    by (simp add: addNewAlert_def Let_def)
  have later: "alerts (loadAlerts_resume nts getTime formatTime formatPrice tbl r
                    (state_after (addNewAlert nts a st))) = take 10 (a # alerts st)
            \<or> (\<exists>xs. r = JArr xs
                  \<and> alerts (loadAlerts_resume nts getTime formatTime formatPrice tbl r
                              (state_after (addNewAlert nts a st))) = xs)"
    using loadAlerts_resume_alerts [of nts getTime formatTime formatPrice tbl r
            "state_after (addNewAlert nts a st)"] now
    by simp
  have older: "alerts (state_after (addNewAlert_static nts clock tbl a st)) =
            (if tbl then mock_alerts clock else take 10 (a # alerts st))"
    by (rule addNewAlert_static_state [OF assms])
  then have older_len: "length (alerts (state_after (addNewAlert_static nts clock tbl a st))) \<le> 10"
    by (simp add: length_mock_alerts)
  from now req later older older_len show ?thesis by simp
qed

theorem addNewAlert_bounded_witness:
  "length (alerts (state_with (replicate 10 JNull))) \<le> 10
   \<and> hd (alerts (state_after (addNewAlert integer_toString (alert_with JNull ''restart'' (JBool False))
              (state_with (replicate 10 JNull))))) = alert_with JNull ''restart'' (JBool False)
   \<and> length (alerts (state_after (addNewAlert integer_toString (alert_with JNull ''restart'' (JBool False))
              (state_with (replicate 10 JNull))))) = 10"
proof -
  have len: "length (alerts (state_with (replicate 10 JNull))) \<le> 10"
    by (simp add: state_with_def)
  from addNewAlert_bounded
         [OF len, where a = "alert_with JNull ''restart'' (JBool False)" and nts = integer_toString
            and getTime = sample_getTime and formatTime = sample_formatTime
            and formatPrice = sample_formatPrice and tbl = True and r = JNull and clock = sample_clock]
       len
  show ?thesis by (simp add: state_with_def)
qed

text \<open>
  The claim does not hold for every script and every moment. In the older script the list
  after \<open>addNewAlert\<close> holds the three alerts of the script, and the new alert is not its
  first element. In the script with the API wrappers, an answer of eleven alerts makes the
  list eleven entries long.
\<close>

theorem addNewAlert_bounded_counterexample:
  "length (alerts (state_with [])) \<le> 10
   \<and> alerts (state_after (addNewAlert_static integer_toString sample_clock True
                (alert_with JNull ''restart'' (JBool False)) (state_with []))) = mock_alerts sample_clock
   \<and> hd (mock_alerts sample_clock) \<noteq> alert_with JNull ''restart'' (JBool False)
   \<and> length (alerts (loadAlerts_resume integer_toString sample_getTime sample_formatTime
                sample_formatPrice True
                (JArr (replicate 11 (alert_with JNull ''restart'' (JBool False))))
                (state_after (addNewAlert integer_toString (alert_with JNull ''restart'' (JBool False))
                   (state_with []))))) = 11"
proof -
  have len: "length (alerts (state_with [])) \<le> 10"
    by (simp add: state_with_def)
  have older: "alerts (state_after (addNewAlert_static integer_toString sample_clock True
                (alert_with JNull ''restart'' (JBool False)) (state_with []))) = mock_alerts sample_clock"
    using addNewAlert_static_state [OF len] by simp
  have differ: "hd (mock_alerts sample_clock) \<noteq> alert_with JNull ''restart'' (JBool False)"
    by (simp add: mock_alerts_def alert_with_def)
  have rendered: "list_all (\<lambda>a. \<not> isl (render_alert integer_toString sample_getTime sample_formatTime
                      sample_formatPrice a))
            (replicate 11 (alert_with JNull ''restart'' (JBool False)))"
    by (simp add: list_all_iff failed_alert_row)
  have eleven: "length (alerts (loadAlerts_resume integer_toString sample_getTime sample_formatTime
                sample_formatPrice True
                (JArr (replicate 11 (alert_with JNull ''restart'' (JBool False))))
                (state_after (addNewAlert integer_toString (alert_with JNull ''restart'' (JBool False))
                   (state_with []))))) = 11"
    using rendered by (simp add: loadAlerts_resume_def)
  from len older differ eleven show ?thesis by simp
qed

end
